theory Spec2Isabelle
  imports Main "HOL-Library.AList"
begin

section \<open>Python values and errors\<close>

text \<open>
  The values that \<open>json.load\<close> hands to the program, and that the program keeps in fields
  it never type-checks. A JSON object is the list of its items in insertion order, as a
  Python dict iterates them; its keys are strings. Numbers are integers. \<open>JOther\<close> is any
  other Python value a caller may put into such a field (a set, a \<open>datetime\<close>, an object):
  \<open>json.dump\<close> cannot encode it, rich cannot render it, and no loaded document contains
  it.
\<close>

datatype json =
    JNull
  | JBool bool
  | JNum int
  | JStr string
  | JArr "json list"
  | JObj "(string \<times> json) list"
  | JOther

text \<open>What \<open>json.dump\<close> can encode.\<close>

fun serialisable :: "json \<Rightarrow> bool" where
  "serialisable JOther = False"
| "serialisable (JArr xs) = list_all serialisable xs"
| "serialisable (JObj items) = list_all serialisable (map snd items)"
| "serialisable _ = True"

text \<open>
  The exceptions the two modules raise or let through, those of the file system, of
  \<open>json\<close> and of rich included.
\<close>

datatype py_error =
    ValueError string
  | PermissionError string
  | FileNotFoundError string
  | IsADirectoryError string
  | UnicodeDecodeError
  | KeyError string
  | TypeError
  | AttributeError
  | NotRenderableError
  | MarkupError

text \<open>
  Why \<open>open\<close> may refuse a path: nothing is there (or its directory is missing, or the
  path is empty), access is denied, or it is a directory. What a file that opens for
  reading holds: bytes that do not decode as text, text that is not JSON, or a JSON
  document.
\<close>

datatype open_error = ENOENT | EACCES | EISDIR

datatype file_content = Undecodable | Malformed | Document json

definition quoted :: "string \<Rightarrow> string" where
  "quoted s = CHR 0x27 # s @ [CHR 0x27]"

text \<open>The \<open>OSError\<close> subclass Python raises for each refusal, with its message.\<close>

fun os_error :: "string \<Rightarrow> open_error \<Rightarrow> py_error" where
  "os_error path ENOENT =
     FileNotFoundError (''[Errno 2] No such file or directory: '' @ quoted path)"
| "os_error path EACCES = PermissionError (''[Errno 13] Permission denied: '' @ quoted path)"
| "os_error path EISDIR = IsADirectoryError (''[Errno 21] Is a directory: '' @ quoted path)"

text \<open>\<open>d[key]\<close> on a loaded value: only a dict can be indexed by a string.\<close>

fun getitem :: "json \<Rightarrow> string \<Rightarrow> py_error + json" where
  "getitem (JObj items) k =
     (case map_of items k of None \<Rightarrow> Inl (KeyError k) | Some v \<Rightarrow> Inr v)"
| "getitem _ k = Inl TypeError"



section \<open>auth/rbac.py\<close>

record role =
  name :: string
  permissions :: "string set"

text \<open>\<open>Role.__init__\<close>: \<open>permissions or set()\<close>.\<close>

definition Role :: "string \<Rightarrow> string set option \<Rightarrow> role" where
  "Role n ps = \<lparr>name = n, permissions = (case ps of None \<Rightarrow> {} | Some p \<Rightarrow> p)\<rparr>"

definition Role_has_permission :: "role \<Rightarrow> string \<Rightarrow> bool" where
  "Role_has_permission r p \<longleftrightarrow> p \<in> permissions r"

abbreviation CREATE_INFRA :: string where "CREATE_INFRA \<equiv> ''infrastructure:create''"
abbreviation READ_INFRA :: string where "READ_INFRA \<equiv> ''infrastructure:read''"
abbreviation UPDATE_INFRA :: string where "UPDATE_INFRA \<equiv> ''infrastructure:update''"
abbreviation DELETE_INFRA :: string where "DELETE_INFRA \<equiv> ''infrastructure:delete''"
abbreviation APPROVE_CHANGES :: string where "APPROVE_CHANGES \<equiv> ''approvals:approve''"
abbreviation REJECT_CHANGES :: string where "REJECT_CHANGES \<equiv> ''approvals:reject''"
abbreviation CREATE_POLICY :: string where "CREATE_POLICY \<equiv> ''policy:create''"
abbreviation MANAGE_POLICY :: string where "MANAGE_POLICY \<equiv> ''policy:manage''"
abbreviation MANAGE_USERS :: string where "MANAGE_USERS \<equiv> ''users:manage''"
abbreviation MANAGE_ROLES :: string where "MANAGE_ROLES \<equiv> ''roles:manage''"
abbreviation VIEW_AUDIT_LOGS :: string where "VIEW_AUDIT_LOGS \<equiv> ''system:view_audit_logs''"
abbreviation ADMIN_ACCESS :: string where "ADMIN_ACCESS \<equiv> ''system:admin''"

text \<open>A role table is a dict from role name to role, in insertion order.\<close>

type_synonym role_table = "(string \<times> role) list"

definition DEFAULT_ROLES :: role_table where
  "DEFAULT_ROLES =
     [(''Admin'', Role ''Admin''
         (Some {ADMIN_ACCESS, MANAGE_USERS, MANAGE_ROLES, VIEW_AUDIT_LOGS})),
      (''Developer'', Role ''Developer''
         (Some {CREATE_INFRA, READ_INFRA, UPDATE_INFRA})),
      (''Auditor'', Role ''Auditor'' (Some {VIEW_AUDIT_LOGS, READ_INFRA})),
      (''Approver'', Role ''Approver'' (Some {APPROVE_CHANGES, REJECT_CHANGES}))]"

text \<open>
  Role tables are dict objects that engines hold by reference, so they live in a store
  indexed by address. The module-level \<open>DEFAULT_ROLES\<close> dict is the object at
  \<open>default_roles_addr\<close>. The rest of the world the two modules touch is here too:
  \<^item> \<open>fs\<close>: what opening a path for reading, and reading it, gives;
  \<^item> \<open>open_w\<close>: whether opening a path for writing is refused;
  \<^item> \<open>markup_error\<close>: whether rich's markup parser raises on a text that contains
    a bracket (the parser belongs to rich, so its verdict is a parameter of the world);
  \<^item> the audit log, the console and the \<open>logging\<close> output.
\<close>

type_synonym addr = nat

definition default_roles_addr :: addr where
  "default_roles_addr = 0"

datatype log_level = INFO | WARNING | ERROR

datatype audit_event =
    PERMISSION_DENIED
  | INFRA_CHANGE_REQUESTED
  | INFRA_CHANGE_APPROVED
  | INFRA_CHANGE_REJECTED

record audit_entry =
  event :: audit_event
  actor_id :: json
  target_id :: "string option"
  entry_status :: string
  details :: json

datatype console_item =
    Line string
  | Table_out string "(string \<times> string) list" "string list list"

record sys =
  heap :: "addr \<Rightarrow> role_table"
  fs :: "string \<Rightarrow> open_error + file_content"
  open_w :: "string \<Rightarrow> open_error option"
  markup_error :: "string \<Rightarrow> bool"
  audit_trail :: "audit_entry list"
  console :: "console_item list"
  logger :: "(log_level \<times> string) list"

text \<open>
  The world once both modules are imported and nothing has run: no file exists yet,
  every path may be opened for writing, and the markup parser is one that raises on the
  unmatched closing tag of \<open>edit [/etc/hosts]\<close>.
\<close>

definition module_init :: sys where
  "module_init =
     \<lparr>heap = (\<lambda>a. if a = default_roles_addr then DEFAULT_ROLES else []),
      fs = (\<lambda>path. Inl ENOENT),
      open_w = (\<lambda>path. None),
      markup_error = (\<lambda>text. text = ''edit [/etc/hosts]''),
      audit_trail = [], console = [], logger = []\<rparr>"

text \<open>\<open>open(path, "w")\<close>: a directory cannot be opened for writing.\<close>

definition open_for_write :: "sys \<Rightarrow> string \<Rightarrow> open_error option" where
  "open_for_write s path = (if fs s path = Inl EISDIR then Some EISDIR else open_w s path)"

definition logger_emit :: "log_level \<Rightarrow> string \<Rightarrow> sys \<Rightarrow> sys" where
  "logger_emit lvl msg s = s\<lparr>logger := logger s @ [(lvl, msg)]\<rparr>"

record rbac_engine =
  roles :: addr
  user_roles :: "(string \<times> json set) list"

text \<open>
  \<open>RBACEngine.__init__\<close>: \<open>self.roles = roles or DEFAULT_ROLES\<close>. The argument is a
  reference to a dict or \<open>None\<close>; \<open>None\<close> and the empty dict are both falsy.
\<close>

definition RBACEngine :: "sys \<Rightarrow> addr option \<Rightarrow> rbac_engine" where
  "RBACEngine s arg =
     \<lparr>roles = (case arg of
                 None \<Rightarrow> default_roles_addr
               | Some a \<Rightarrow> if heap s a = [] then default_roles_addr else a),
      user_roles = []\<rparr>"

text \<open>The role table an engine sees: the dict its \<open>roles\<close> field refers to.\<close>

definition role_table_of :: "sys \<Rightarrow> rbac_engine \<Rightarrow> role_table" where
  "role_table_of s e = heap s (roles e)"

definition add_role :: "sys \<Rightarrow> rbac_engine \<Rightarrow> role \<Rightarrow> (py_error + unit) \<times> sys" where
  "add_role s e r =
     (if map_of (role_table_of s e) (name r) \<noteq> None
      then (Inl (ValueError (''Role '' @ quoted (name r) @ '' already exists.'')), s)
      else (Inr (),
            logger_emit INFO (''Role '' @ quoted (name r) @ '' added.'')
              (s\<lparr>heap := (heap s)(roles e := AList.update (name r) r (role_table_of s e))\<rparr>)))"

definition assign_role_to_user ::
  "sys \<Rightarrow> rbac_engine \<Rightarrow> string \<Rightarrow> string \<Rightarrow> (py_error + unit) \<times> rbac_engine \<times> sys" where
  "assign_role_to_user s e user_id role_name =
     (if map_of (role_table_of s e) role_name = None
      then (Inl (ValueError (''Role '' @ quoted role_name @ '' does not exist.'')), e, s)
      else
        let held = (case map_of (user_roles e) user_id of None \<Rightarrow> {} | Some rs \<Rightarrow> rs)
        in (Inr (),
            e\<lparr>user_roles := AList.update user_id (insert (JStr role_name) held) (user_roles e)\<rparr>,
            logger_emit INFO
              (''Assigned role '' @ quoted role_name @ '' to user '' @ quoted user_id @ ''.'') s))"

definition remove_role_from_user ::
  "sys \<Rightarrow> rbac_engine \<Rightarrow> string \<Rightarrow> string \<Rightarrow> rbac_engine \<times> sys" where
  "remove_role_from_user s e user_id role_name =
     (case map_of (user_roles e) user_id of
        None \<Rightarrow> (e, s)
      | Some rs \<Rightarrow>
          if JStr role_name \<in> rs
          then (e\<lparr>user_roles := AList.update user_id (rs - {JStr role_name}) (user_roles e)\<rparr>,
                logger_emit INFO
                  (''Removed role '' @ quoted role_name @ '' from user '' @ quoted user_id @ ''.'') s)
          else (e, s))"

text \<open>
  The permissions one held role name contributes: \<open>self.roles.get(role_name)\<close> finds a
  role only for a string that names one.
\<close>

fun role_permissions :: "role_table \<Rightarrow> json \<Rightarrow> string set" where
  "role_permissions tbl (JStr n) =
     (case map_of tbl n of None \<Rightarrow> {} | Some r \<Rightarrow> permissions r)"
| "role_permissions tbl _ = {}"

definition get_user_permissions :: "sys \<Rightarrow> rbac_engine \<Rightarrow> string \<Rightarrow> string set" where
  "get_user_permissions s e user_id =
     (let user_role_names = (case map_of (user_roles e) user_id of None \<Rightarrow> {} | Some rs \<Rightarrow> rs)
      in \<Union> (role_permissions (role_table_of s e) ` user_role_names))"

definition has_permission :: "sys \<Rightarrow> rbac_engine \<Rightarrow> string \<Rightarrow> string \<Rightarrow> bool" where
  "has_permission s e user_id permission \<longleftrightarrow> permission \<in> get_user_permissions s e user_id"





section \<open>workflows/approval.py\<close>

text \<open>A UTC \<open>datetime\<close>, and its \<open>isoformat\<close> with a given separator.\<close>

record datetime =
  year :: nat
  month :: nat
  day :: nat
  hour :: nat
  minute :: nat
  second :: nat
  microsecond :: nat

definition digit :: "nat \<Rightarrow> char" where
  "digit n = ''0123456789'' ! (n mod 10)"

fun zero_padded :: "nat \<Rightarrow> nat \<Rightarrow> string" where
  "zero_padded 0 n = []"
| "zero_padded (Suc w) n = zero_padded w (n div 10) @ [digit n]"

definition isoformat_sep :: "char \<Rightarrow> datetime \<Rightarrow> string" where
  "isoformat_sep sep d =
     zero_padded 4 (year d) @ ''-'' @ zero_padded 2 (month d) @ ''-'' @ zero_padded 2 (day d)
     @ [sep]
     @ zero_padded 2 (hour d) @ '':'' @ zero_padded 2 (minute d) @ '':'' @ zero_padded 2 (second d)
     @ (if microsecond d \<noteq> 0 then ''.'' @ zero_padded 6 (microsecond d) else [])
     @ ''+00:00''"

definition isoformat :: "datetime \<Rightarrow> string" where
  "isoformat d = isoformat_sep CHR ''T'' d"

definition datetime_str :: "datetime \<Rightarrow> string" where
  "datetime_str d = isoformat_sep CHR '' '' d"

text \<open>Chronological order on datetimes: the fields compared from the year down.\<close>

definition datetime_key :: "datetime \<Rightarrow> nat list" where
  "datetime_key d = [year d, month d, day d, hour d, minute d, second d, microsecond d]"

fun key_le :: "nat list \<Rightarrow> nat list \<Rightarrow> bool" where
  "key_le [] _ = True"
| "key_le (x # xs) [] = False"
| "key_le (x # xs) (y # ys) = (x < y \<or> (x = y \<and> key_le xs ys))"

definition datetime_le :: "datetime \<Rightarrow> datetime \<Rightarrow> bool" where
  "datetime_le a b = key_le (datetime_key a) (datetime_key b)"

datatype ApprovalStatus = PENDING | APPROVED | REJECTED | CANCELLED

fun status_value :: "ApprovalStatus \<Rightarrow> string" where
  "status_value PENDING = ''pending''"
| "status_value APPROVED = ''approved''"
| "status_value REJECTED = ''rejected''"
| "status_value CANCELLED = ''cancelled''"

text \<open>\<open>ApprovalStatus(v)\<close>: the member whose value is \<open>v\<close>, or \<open>ValueError\<close>.\<close>

fun ApprovalStatus_of :: "json \<Rightarrow> py_error + ApprovalStatus" where
  "ApprovalStatus_of (JStr v) =
     (if v = ''pending'' then Inr PENDING
      else if v = ''approved'' then Inr APPROVED
      else if v = ''rejected'' then Inr REJECTED
      else if v = ''cancelled'' then Inr CANCELLED
      else Inl (ValueError (quoted v @ '' is not a valid ApprovalStatus'')))"
| "ApprovalStatus_of _ = Inl (ValueError ''not a valid ApprovalStatus'')"

text \<open>
  \<open>requester_id\<close>, \<open>change_summary\<close> and \<open>change_details\<close> hold whatever the caller or the
  ledger file supplied; nothing checks their types. A comment is the pair
  \<open>(user_id, comment)\<close> of the dict \<open>{"user_id": ..., "comment": ...}\<close>.
\<close>

record approval_request =
  id' :: string
  requester_id :: json
  change_summary :: json
  change_details :: json
  approver_role :: string
  status :: ApprovalStatus
  created_at :: datetime
  updated_at :: datetime
  approver_id :: "string option"
  comments :: "(string \<times> string) list"

text \<open>
  \<open>ApprovalRequest.__init__\<close>; the two readings of the environment, \<open>str(uuid4())\<close> and
  \<open>datetime.now(timezone.utc)\<close>, are arguments.
\<close>

definition ApprovalRequest ::
  "string \<Rightarrow> datetime \<Rightarrow> json \<Rightarrow> json \<Rightarrow> json \<Rightarrow> string \<Rightarrow> approval_request" where
  "ApprovalRequest uuid now requester summary change_details_arg approver_role_arg =
     \<lparr>id' = uuid,
      requester_id = requester,
      change_summary = summary,
      change_details = change_details_arg,
      approver_role = approver_role_arg,
      status = PENDING,
      created_at = now,
      updated_at = now,
      approver_id = None,
      comments = []\<rparr>"

definition comment_dict :: "string \<times> string \<Rightarrow> json" where
  "comment_dict c = JObj [(''user_id'', JStr (fst c)), (''comment'', JStr (snd c))]"

definition to_dict :: "approval_request \<Rightarrow> json" where
  "to_dict r =
     JObj [(''id'', JStr (id' r)),
           (''requester_id'', requester_id r),
           (''change_summary'', change_summary r),
           (''change_details'', change_details r),
           (''approver_role'', JStr (approver_role r)),
           (''status'', JStr (status_value (status r))),
           (''created_at'', JStr (isoformat (created_at r))),
           (''updated_at'', JStr (isoformat (updated_at r))),
           (''approver_id'', (case approver_id r of None \<Rightarrow> JNull | Some a \<Rightarrow> JStr a)),
           (''comments'', JArr (map comment_dict (comments r)))]"

text \<open>
  The workflow object: its ledger is a dict from request id to request, in insertion
  order. Its \<open>rbac_engine\<close> field is a reference to an engine that others may still
  change, so every operation that consults it takes the engine's current state as an
  argument. The ledger's values are request objects; here the ledger holds their
  current contents, and an in-place change of a request is an update of its entry.
\<close>

type_synonym ledger = "(string \<times> approval_request) list"

record workflow =
  storage_file :: string
  requests :: ledger

text \<open>
  The loop of \<open>_load_requests\<close>. Each pass builds a request with a fresh uuid and the
  clock's reading at that moment (\<open>uuids i\<close>, \<open>clock i\<close> on pass \<open>i\<close>), then overwrites
  \<open>id\<close> and \<open>status\<close> from the file; no other field is read back.
\<close>

fun load_loop ::
  "(nat \<Rightarrow> string) \<Rightarrow> (nat \<Rightarrow> datetime) \<Rightarrow> nat \<Rightarrow> (string \<times> json) list \<Rightarrow> ledger
   \<Rightarrow> py_error + ledger" where
  "load_loop uuids clock i [] acc = Inr acc"
| "load_loop uuids clock i ((req_id, req_data) # rest) acc =
     (case getitem req_data ''requester_id'' of
        Inl err \<Rightarrow> Inl err
      | Inr requester \<Rightarrow>
     (case getitem req_data ''change_summary'' of
        Inl err \<Rightarrow> Inl err
      | Inr summary \<Rightarrow>
     (case getitem req_data ''change_details'' of
        Inl err \<Rightarrow> Inl err
      | Inr det \<Rightarrow>
     (case getitem req_data ''status'' of
        Inl err \<Rightarrow> Inl err
      | Inr sv \<Rightarrow>
     (case ApprovalStatus_of sv of
        Inl err \<Rightarrow> Inl err
      | Inr st \<Rightarrow>
          load_loop uuids clock (Suc i) rest
            (AList.update req_id
               ((ApprovalRequest (uuids i) (clock i) requester summary det ''Approver'')
                  \<lparr>id' := req_id, status := st\<rparr>)
               acc))))))"

text \<open>
  \<open>_load_requests\<close>: a missing file and a text that is not JSON both give the empty
  ledger; every other failure propagates: the other refusals of \<open>open\<close>,
  \<open>UnicodeDecodeError\<close> from reading, and whatever the loop raises. \<open>data.items()\<close> needs
  a dict.
\<close>

definition load_requests ::
  "sys \<Rightarrow> string \<Rightarrow> (nat \<Rightarrow> string) \<Rightarrow> (nat \<Rightarrow> datetime) \<Rightarrow> py_error + ledger" where
  "load_requests s path uuids clock =
     (case fs s path of
        Inl ENOENT \<Rightarrow> Inr []
      | Inl refusal \<Rightarrow> Inl (os_error path refusal)
      | Inr Undecodable \<Rightarrow> Inl UnicodeDecodeError
      | Inr Malformed \<Rightarrow> Inr []
      | Inr (Document (JObj items)) \<Rightarrow> load_loop uuids clock 0 items []
      | Inr (Document _) \<Rightarrow> Inl AttributeError)"

text \<open>\<open>ApprovalWorkflow.__init__\<close>.\<close>

definition ApprovalWorkflow ::
  "sys \<Rightarrow> string \<Rightarrow> (nat \<Rightarrow> string) \<Rightarrow> (nat \<Rightarrow> datetime) \<Rightarrow> py_error + workflow" where
  "ApprovalWorkflow s path uuids clock =
     (case load_requests s path uuids clock of
        Inl err \<Rightarrow> Inl err
      | Inr l \<Rightarrow> Inr \<lparr>storage_file = path, requests = l\<rparr>)"

text \<open>
  \<open>_save_requests\<close>. When \<open>open(self.storage_file, "w")\<close> is refused the exception
  propagates and the file is as it was. Otherwise the file is truncated and \<open>json.dump\<close>
  writes the ledger piece by piece: when every request serialises the file holds the
  whole ledger; when one does not, \<open>json.dump\<close> raises \<open>TypeError\<close> part-way and the
  file is left with a text that is not JSON.
\<close>

definition ledger_json :: "ledger \<Rightarrow> json" where
  "ledger_json l = JObj (map (\<lambda>kv. (fst kv, to_dict (snd kv))) l)"

definition save_requests :: "sys \<Rightarrow> workflow \<Rightarrow> (py_error + unit) \<times> sys" where
  "save_requests s w =
     (case open_for_write s (storage_file w) of
        Some refusal \<Rightarrow> (Inl (os_error (storage_file w) refusal), s)
      | None \<Rightarrow>
          if serialisable (ledger_json (requests w))
          then (Inr (),
                s\<lparr>fs := (fs s)(storage_file w := Inr (Document (ledger_json (requests w))))\<rparr>)
          else (Inl TypeError, s\<lparr>fs := (fs s)(storage_file w := Inr Malformed)\<rparr>))"

text \<open>
  \<open>AuditLogger.log\<close> with the default \<open>status="success"\<close>; \<open>details or {}\<close> turns a falsy
  value into the empty dict, and \<open>json.dumps\<close> of the entry raises \<open>TypeError\<close> when the
  actor or the details do not serialise. The entry's own timestamp is not kept.
\<close>

fun truthy :: "json \<Rightarrow> bool" where
  "truthy JNull = False"
| "truthy (JBool b) = b"
| "truthy (JNum n) = (n \<noteq> 0)"
| "truthy (JStr s) = (s \<noteq> [])"
| "truthy (JArr xs) = (xs \<noteq> [])"
| "truthy (JObj items) = (items \<noteq> [])"
| "truthy JOther = True"

definition audit_logger_log ::
  "audit_event \<Rightarrow> json \<Rightarrow> string option \<Rightarrow> json \<Rightarrow> sys \<Rightarrow> (py_error + unit) \<times> sys" where
  "audit_logger_log ev actor target det s =
     (let det1 = (if truthy det then det else JObj [])
      in if serialisable actor \<and> serialisable det1
         then (Inr (),
               s\<lparr>audit_trail := audit_trail s @
                   [\<lparr>event = ev, actor_id = actor, target_id = target,
                     entry_status = ''success'', details = det1\<rparr>]\<rparr>)
         else (Inl TypeError, s))"

text \<open>
  What rich does with a text it is given to print: a text without a bracket is taken
  as it is; on any other the markup parser decides, and raises \<open>MarkupError\<close> on a closing
  tag that closes nothing.
\<close>

definition markup_rejected :: "sys \<Rightarrow> string \<Rightarrow> bool" where
  "markup_rejected s text \<longleftrightarrow> CHR ''['' \<in> set text \<and> markup_error s text"

fun item_texts :: "console_item \<Rightarrow> string list" where
  "item_texts (Line text) = [text]"
| "item_texts (Table_out title columns rows) = title # map fst columns @ concat rows"

text \<open>\<open>console.print\<close>: everything is rendered before anything is written.\<close>

definition console_print :: "console_item \<Rightarrow> sys \<Rightarrow> (py_error + unit) \<times> sys" where
  "console_print item s =
     (if list_ex (markup_rejected s) (item_texts item)
      then (Inl MarkupError, s)
      else (Inr (), s\<lparr>console := console s @ [item]\<rparr>))"

text \<open>
  \<open>create_request\<close>: the ledger in memory is changed first; the write, the audit entry
  and the message follow, and the first of them that raises ends the call.
\<close>

definition create_request ::
  "sys \<Rightarrow> workflow \<Rightarrow> approval_request \<Rightarrow> (py_error + unit) \<times> workflow \<times> sys" where
  "create_request s w request =
     (let w1 = w\<lparr>requests := AList.update (id' request) request (requests w)\<rparr>
      in case save_requests s w1 of
           (Inl err, s1) \<Rightarrow> (Inl err, w1, s1)
         | (Inr _, s1) \<Rightarrow>
             (case audit_logger_log INFRA_CHANGE_REQUESTED (requester_id request)
                     (Some (id' request)) (change_summary request) s1 of
                (Inl err, s2) \<Rightarrow> (Inl err, w1, s2)
              | (Inr _, s2) \<Rightarrow>
                  (case console_print
                          (Line (''[green]Approval request '' @ quoted (id' request)
                                 @ '' created.[/green]'')) s2 of
                     (res, s3) \<Rightarrow> (res, w1, s3))))"

text \<open>
  The four assignments of \<open>approve_request\<close> to the request: status, approver, time, and
  the comment when \<open>if comment:\<close> lets it through.
\<close>

definition approved_by ::
  "approval_request \<Rightarrow> datetime \<Rightarrow> string \<Rightarrow> string option \<Rightarrow> approval_request" where
  "approved_by request now approver comment =
     request
       \<lparr>status := APPROVED, updated_at := now, approver_id := Some approver,
        comments := comments request @
          (case comment of
             None \<Rightarrow> []
           | Some c \<Rightarrow> if c \<noteq> [] then [(approver, c)] else [])\<rparr>"

text \<open>
  \<open>approve_request\<close>: the two checks first; then the request is changed in memory, and
  the write, the audit entry and the message follow as in \<open>create_request\<close>.
\<close>

definition approve_request ::
  "sys \<Rightarrow> rbac_engine \<Rightarrow> workflow \<Rightarrow> datetime \<Rightarrow> string \<Rightarrow> string \<Rightarrow> string option
   \<Rightarrow> (py_error + unit) \<times> workflow \<times> sys" where
  "approve_request s e w now request_id approver comment =
     (case map_of (requests w) request_id of
        None \<Rightarrow> (Inl (ValueError ''Approval request not found.''), w, s)
      | Some request \<Rightarrow>
          if \<not> has_permission s e approver APPROVE_CHANGES
          then (Inl (PermissionError ''You do not have permission to approve changes.''), w, s)
          else
            let request1 = approved_by request now approver comment;
                w1 = w\<lparr>requests := AList.update request_id request1 (requests w)\<rparr>
            in case save_requests s w1 of
                 (Inl err, s1) \<Rightarrow> (Inl err, w1, s1)
               | (Inr _, s1) \<Rightarrow>
                   (case audit_logger_log INFRA_CHANGE_APPROVED (JStr approver)
                           (Some request_id)
                           (JObj [(''comment'',
                                   (case comment of None \<Rightarrow> JNull | Some c \<Rightarrow> JStr c))])
                           s1 of
                      (Inl err, s2) \<Rightarrow> (Inl err, w1, s2)
                    | (Inr _, s2) \<Rightarrow>
                        (case console_print
                                (Line (''[green]Approval request '' @ quoted request_id
                                       @ '' approved.[/green]'')) s2 of
                           (res, s3) \<Rightarrow> (res, w1, s3))))"

text \<open>
  \<open>list_pending_requests\<close>: the pending requests in the ledger's own order. With none, a
  single line is printed. Otherwise \<open>Table.add_row\<close> takes one row for each: a cell must
  be a string or \<open>None\<close> (shown empty), anything else raises \<open>NotRenderableError\<close>; then
  the table is printed.
\<close>

definition pending_requests :: "workflow \<Rightarrow> approval_request list" where
  "pending_requests w = filter (\<lambda>req. status req = PENDING) (map snd (requests w))"

fun cell :: "json \<Rightarrow> py_error + string" where
  "cell (JStr text) = Inr text"
| "cell JNull = Inr []"
| "cell _ = Inl NotRenderableError"

definition table_row :: "approval_request \<Rightarrow> py_error + string list" where
  "table_row req =
     (case cell (requester_id req) of
        Inl err \<Rightarrow> Inl err
      | Inr requester \<Rightarrow>
          (case cell (change_summary req) of
             Inl err \<Rightarrow> Inl err
           | Inr summary \<Rightarrow>
               Inr [id' req, requester, summary, datetime_str (created_at req)]))"

fun add_rows :: "approval_request list \<Rightarrow> py_error + string list list" where
  "add_rows [] = Inr []"
| "add_rows (req # rest) =
     (case table_row req of
        Inl err \<Rightarrow> Inl err
      | Inr row \<Rightarrow>
          (case add_rows rest of
             Inl err \<Rightarrow> Inl err
           | Inr rows \<Rightarrow> Inr (row # rows)))"

definition pending_table :: "string list list \<Rightarrow> console_item" where
  "pending_table rows =
     Table_out ''Pending Approval Requests''
       [(''ID'', ''cyan''), (''Requester'', ''green''),
        (''Summary'', ''magenta''), (''Created At'', ''yellow'')]
       rows"

definition list_pending_requests :: "sys \<Rightarrow> workflow \<Rightarrow> (py_error + unit) \<times> workflow \<times> sys" where
  "list_pending_requests s w =
     (if pending_requests w = []
      then (case console_print (Line ''[yellow]No pending approval requests.[/yellow]'') s of
              (res, s1) \<Rightarrow> (res, w, s1))
      else (case add_rows (pending_requests w) of
              Inl err \<Rightarrow> (Inl err, w, s)
            | Inr rows \<Rightarrow>
                (case console_print (pending_table rows) s of
                   (res, s1) \<Rightarrow> (res, w, s1))))"

text \<open>
  Calling a method on a workflow object by name, \<open>w.name(args)\<close>. The class body binds six
  names; a call with the wrong arguments is a \<open>TypeError\<close>, and a name the class does not
  bind is an \<open>AttributeError\<close> (the attributes every object inherits, all of the form
  \<open>__x__\<close>, and the three instance fields are left out).
\<close>

datatype call_args =
    No_args
  | Init_args string
  | Request_arg approval_request
  | Transition_args string string "string option"

datatype retval = PyNone | Requests ledger

definition ApprovalWorkflow_methods :: "string list" where
  "ApprovalWorkflow_methods =
     [''__init__'', ''_load_requests'', ''_save_requests'',
      ''create_request'', ''approve_request'', ''list_pending_requests'']"

definition returned_none ::
  "(py_error + unit) \<times> workflow \<times> sys \<Rightarrow> (py_error + retval) \<times> workflow \<times> sys" where
  "returned_none r = (case r of (res, w, s) \<Rightarrow> (map_sum (\<lambda>err. err) (\<lambda>_. PyNone) res, w, s))"

definition call_method ::
  "sys \<Rightarrow> rbac_engine \<Rightarrow> workflow \<Rightarrow> (nat \<Rightarrow> string) \<Rightarrow> (nat \<Rightarrow> datetime) \<Rightarrow> datetime
   \<Rightarrow> string \<Rightarrow> call_args \<Rightarrow> (py_error + retval) \<times> workflow \<times> sys" where
  "call_method s e w uuids clock now method args =
     (if method \<notin> set ApprovalWorkflow_methods then (Inl AttributeError, w, s)
      else if method = ''__init__'' then
        (case args of
           Init_args path \<Rightarrow>
             (case load_requests s path uuids clock of
                Inl err \<Rightarrow> (Inl err, w\<lparr>storage_file := path\<rparr>, s)
              | Inr l \<Rightarrow> (Inr PyNone, \<lparr>storage_file = path, requests = l\<rparr>, s))
         | _ \<Rightarrow> (Inl TypeError, w, s))
      else if method = ''_load_requests'' then
        (case args of
           No_args \<Rightarrow>
             (case load_requests s (storage_file w) uuids clock of
                Inl err \<Rightarrow> (Inl err, w, s)
              | Inr l \<Rightarrow> (Inr (Requests l), w, s))
         | _ \<Rightarrow> (Inl TypeError, w, s))
      else if method = ''_save_requests'' then
        (case args of
           No_args \<Rightarrow>
             (case save_requests s w of
                (res, s1) \<Rightarrow> (map_sum (\<lambda>err. err) (\<lambda>_. PyNone) res, w, s1))
         | _ \<Rightarrow> (Inl TypeError, w, s))
      else if method = ''create_request'' then
        (case args of
           Request_arg request \<Rightarrow> returned_none (create_request s w request)
         | _ \<Rightarrow> (Inl TypeError, w, s))
      else if method = ''approve_request'' then
        (case args of
           Transition_args request_id approver comment \<Rightarrow>
             returned_none (approve_request s e w now request_id approver comment)
         | _ \<Rightarrow> (Inl TypeError, w, s))
      else
        (case args of
           No_args \<Rightarrow> returned_none (list_pending_requests s w)
         | _ \<Rightarrow> (Inl TypeError, w, s)))"

section \<open>A scenario\<close>

text \<open>
  Default roles, alice an Approver, bob without roles; bob files request R1 ("add subnet")
  into an empty ledger kept in \<open>approvals.json\<close>.
\<close>

definition time_a :: datetime where
  "time_a = \<lparr>year = 2025, month = 1, day = 1, hour = 10, minute = 0, second = 0,
             microsecond = 0\<rparr>"

definition time_b :: datetime where
  "time_b = \<lparr>year = 2025, month = 1, day = 2, hour = 9, minute = 30, second = 0,
             microsecond = 250\<rparr>"

definition time_c :: datetime where
  "time_c = \<lparr>year = 2025, month = 1, day = 3, hour = 18, minute = 5, second = 42,
             microsecond = 0\<rparr>"

definition approver_engine :: rbac_engine where
  "approver_engine =
     fst (snd (assign_role_to_user module_init (RBACEngine module_init None)
                 ''alice'' ''Approver''))"

definition request_R1 :: approval_request where
  "request_R1 =
     ApprovalRequest ''R1'' time_a (JStr ''bob'') (JStr ''add subnet'')
       (JObj [(''description'', JStr ''one more subnet'')]) ''Approver''"

definition request_R2 :: approval_request where
  "request_R2 =
     ApprovalRequest ''R2'' time_b (JStr ''bob'') (JStr ''add route'')
       (JObj [(''description'', JStr ''one more route'')]) ''Approver''"

definition empty_workflow :: workflow where
  "empty_workflow = \<lparr>storage_file = ''approvals.json'', requests = []\<rparr>"

definition workflow_R1 :: workflow where
  "workflow_R1 = fst (snd (create_request module_init empty_workflow request_R1))"

definition sys_R1 :: sys where
  "sys_R1 = snd (snd (create_request module_init empty_workflow request_R1))"

text \<open>alice approves R1 at \<open>time_b\<close>, and once more at \<open>time_c\<close>.\<close>

definition first_approval :: "(py_error + unit) \<times> workflow \<times> sys" where
  "first_approval =
     approve_request sys_R1 approver_engine workflow_R1 time_b ''R1'' ''alice'' None"

definition second_approval :: "(py_error + unit) \<times> workflow \<times> sys" where
  "second_approval =
     approve_request (snd (snd first_approval)) approver_engine (fst (snd first_approval))
       time_c ''R1'' ''alice'' None"

text \<open>
  A later process opens the ledger file: every uuid drawn is \<open>fresh-uuid\<close> and the clock
  reads \<open>time_c\<close>. Once after R1 was filed, once after alice approved it.
\<close>

definition reload_uuids :: "nat \<Rightarrow> string" where
  "reload_uuids i = ''fresh-uuid''"

definition reload_clock :: "nat \<Rightarrow> datetime" where
  "reload_clock i = time_c"

definition reloaded_R1 :: "py_error + workflow" where
  "reloaded_R1 = ApprovalWorkflow sys_R1 ''approvals.json'' reload_uuids reload_clock"

definition reloaded_approved :: "py_error + workflow" where
  "reloaded_approved =
     ApprovalWorkflow (snd (snd first_approval)) ''approvals.json'' reload_uuids reload_clock"

text \<open>dave files a request that carries R1's id.\<close>

definition request_R1_again :: approval_request where
  "request_R1_again =
     ApprovalRequest ''R1'' time_b (JStr ''dave'') (JStr ''drop table'') (JObj []) ''Approver''"

definition duplicate_create :: "(py_error + unit) \<times> workflow \<times> sys" where
  "duplicate_create = create_request sys_R1 workflow_R1 request_R1_again"

text \<open>R2, built after R1, is filed before it.\<close>

definition workflow_R2_R1 :: workflow where
  "workflow_R2_R1 =
     fst (snd (create_request
                 (snd (snd (create_request module_init empty_workflow request_R2)))
                 (fst (snd (create_request module_init empty_workflow request_R2)))
                 request_R1))"

definition operator_role :: role where
  "operator_role = Role ''Operator'' (Some {READ_INFRA})"


section \<open>Facts about the operations and the scenario\<close>

lemma save_requests_cases:
  "open_for_write s (storage_file w) = Some refusal \<Longrightarrow>
     save_requests s w = (Inl (os_error (storage_file w) refusal), s)"
  "open_for_write s (storage_file w) = None \<Longrightarrow> serialisable (ledger_json (requests w)) \<Longrightarrow>
     save_requests s w =
       (Inr (), s\<lparr>fs := (fs s)(storage_file w := Inr (Document (ledger_json (requests w))))\<rparr>)"
  "open_for_write s (storage_file w) = None \<Longrightarrow> \<not> serialisable (ledger_json (requests w)) \<Longrightarrow>
     save_requests s w = (Inl TypeError, s\<lparr>fs := (fs s)(storage_file w := Inr Malformed)\<rparr>)"
  by (simp_all add: save_requests_def)

lemma save_requests_frame:
  "heap (snd (save_requests s w)) = heap s"
  "markup_error (snd (save_requests s w)) = markup_error s"
  "audit_trail (snd (save_requests s w)) = audit_trail s"
  "console (snd (save_requests s w)) = console s"
  "logger (snd (save_requests s w)) = logger s"
  by (simp_all add: save_requests_def split: option.splits)

lemma save_requests_ok_iff:
  "fst (save_requests s w) = Inr () \<longleftrightarrow>
     open_for_write s (storage_file w) = None \<and> serialisable (ledger_json (requests w))"
  by (simp add: save_requests_def split: option.splits)

lemma save_requests_error:
  "fst (save_requests s w) \<noteq> Inr () \<Longrightarrow>
     fst (save_requests s w) = Inl TypeError
     \<or> (\<exists>refusal. fst (save_requests s w) = Inl (os_error (storage_file w) refusal))"
  by (auto simp add: save_requests_def split: option.splits if_splits)

lemma serialisable_ledger_entry:
  assumes "serialisable (ledger_json l)" and "map_of l k = Some r"
  shows "serialisable (requester_id r)" and "serialisable (change_summary r)"
proof -
  from assms(2) have "(k, r) \<in> set l" by (rule map_of_SomeD)
  with assms(1) have "serialisable (to_dict r)"
    by (auto simp add: ledger_json_def list_all_iff)
  then show "serialisable (requester_id r)" and "serialisable (change_summary r)"
    by (simp_all add: to_dict_def)
qed

lemma audit_logger_log_ok:
  "serialisable actor \<Longrightarrow> serialisable det \<Longrightarrow>
   audit_logger_log ev actor target det s =
     (Inr (), s\<lparr>audit_trail := audit_trail s @
        [\<lparr>event = ev, actor_id = actor, target_id = target, entry_status = ''success'',
          details = (if truthy det then det else JObj [])\<rparr>]\<rparr>)"
  by (simp add: audit_logger_log_def Let_def)

lemma markup_rejected_frame:
  "markup_error s' = markup_error s \<Longrightarrow> markup_rejected s' text = markup_rejected s text"
  by (simp add: markup_rejected_def)

lemma console_print_Line:
  "console_print (Line text) s =
     (if markup_rejected s text then (Inl MarkupError, s)
      else (Inr (), s\<lparr>console := console s @ [Line text]\<rparr>))"
  by (simp add: console_print_def)


lemma create_request_workflow:
  "fst (snd (create_request s w req)) =
     w\<lparr>requests := AList.update (id' req) req (requests w)\<rparr>"
  by (simp add: create_request_def Let_def split: prod.splits sum.splits)

lemma save_requests_frameD:
  "save_requests s w = (r, s') \<Longrightarrow>
     heap s' = heap s \<and> markup_error s' = markup_error s \<and> open_w s' = open_w s
     \<and> audit_trail s' = audit_trail s \<and> console s' = console s \<and> logger s' = logger s"
  by (auto simp add: save_requests_def split: option.splits if_splits)

lemma audit_logger_log_frameD:
  "audit_logger_log ev actor target det s = (r, s') \<Longrightarrow>
     heap s' = heap s \<and> fs s' = fs s \<and> markup_error s' = markup_error s
     \<and> open_w s' = open_w s \<and> console s' = console s \<and> logger s' = logger s"
  by (auto simp add: audit_logger_log_def Let_def split: if_splits)

lemma console_print_frameD:
  "console_print item s = (r, s') \<Longrightarrow>
     heap s' = heap s \<and> fs s' = fs s \<and> markup_error s' = markup_error s
     \<and> open_w s' = open_w s \<and> audit_trail s' = audit_trail s \<and> logger s' = logger s"
  by (auto simp add: console_print_def split: if_splits)

lemma create_request_heap: "heap (snd (snd (create_request s w req))) = heap s"
  by (auto simp add: create_request_def Let_def split: prod.splits sum.splits
      dest!: save_requests_frameD audit_logger_log_frameD console_print_frameD)

lemma create_request_saved:
  assumes "open_for_write s (storage_file w) = None"
    and "serialisable (ledger_json (AList.update (id' req) req (requests w)))"
  shows "fs (snd (snd (create_request s w req))) =
           (fs s)(storage_file w :=
              Inr (Document (ledger_json (AList.update (id' req) req (requests w)))))"
    and "fst (create_request s w req) =
           (if markup_rejected s
                 (''[green]Approval request '' @ quoted (id' req) @ '' created.[/green]'')
            then Inl MarkupError else Inr ())"
proof -
  let ?l = "AList.update (id' req) req (requests w)"
  have "map_of ?l (id' req) = Some req" by (simp add: update_conv')
  from serialisable_ledger_entry [OF assms(2) this]
  have ser: "serialisable (requester_id req)" "serialisable (change_summary req)" .
  show "fs (snd (snd (create_request s w req))) =
           (fs s)(storage_file w := Inr (Document (ledger_json ?l)))"
    using assms ser
    by (simp add: create_request_def Let_def save_requests_cases audit_logger_log_ok
        console_print_Line markup_rejected_def)
  show "fst (create_request s w req) =
           (if markup_rejected s
                 (''[green]Approval request '' @ quoted (id' req) @ '' created.[/green]'')
            then Inl MarkupError else Inr ())"
    using assms ser
    by (simp add: create_request_def Let_def save_requests_cases audit_logger_log_ok
        console_print_Line markup_rejected_def)
qed

lemma create_request_not_saved:
  assumes "\<not> (open_for_write s (storage_file w) = None
              \<and> serialisable (ledger_json (AList.update (id' req) req (requests w))))"
  shows "fst (create_request s w req) = Inl TypeError
         \<or> (\<exists>refusal. fst (create_request s w req) = Inl (os_error (storage_file w) refusal))"
  using assms
  by (auto simp add: create_request_def Let_def save_requests_def split: option.splits)


lemma approve_request_heap:
  "heap (snd (snd (approve_request s e w now rid a c))) = heap s"
  by (auto simp add: approve_request_def Let_def split: prod.splits sum.splits option.splits
      dest!: save_requests_frameD audit_logger_log_frameD console_print_frameD)

lemma approve_request_workflow:
  assumes "map_of (requests w) rid = Some R"
    and "has_permission s e approver APPROVE_CHANGES"
  shows "fst (snd (approve_request s e w now rid approver comment)) =
           w\<lparr>requests := AList.update rid (approved_by R now approver comment) (requests w)\<rparr>"
  using assms
  by (simp add: approve_request_def Let_def approved_by_def split: prod.splits sum.splits)

lemma approve_request_saved:
  assumes "map_of (requests w) rid = Some R"
    and "has_permission s e approver APPROVE_CHANGES"
    and "open_for_write s (storage_file w) = None"
    and "serialisable (ledger_json (AList.update rid (approved_by R now approver comment)
                                      (requests w)))"
  shows "fs (snd (snd (approve_request s e w now rid approver comment))) =
           (fs s)(storage_file w :=
              Inr (Document (ledger_json
                     (AList.update rid (approved_by R now approver comment) (requests w)))))"
    and "fst (approve_request s e w now rid approver comment) =
           (if markup_rejected s
                 (''[green]Approval request '' @ quoted rid @ '' approved.[/green]'')
            then Inl MarkupError else Inr ())"
  using assms
  by (simp_all add: approve_request_def Let_def approved_by_def save_requests_cases
      audit_logger_log_ok console_print_Line markup_rejected_def split: option.splits)

lemma approve_request_not_saved:
  assumes "map_of (requests w) rid = Some R"
    and "has_permission s e approver APPROVE_CHANGES"
    and "\<not> (open_for_write s (storage_file w) = None
            \<and> serialisable (ledger_json (AList.update rid (approved_by R now approver comment)
                                            (requests w))))"
  shows "fst (approve_request s e w now rid approver comment) = Inl TypeError
         \<or> (\<exists>refusal. fst (approve_request s e w now rid approver comment)
                        = Inl (os_error (storage_file w) refusal))"
  using assms
  by (auto simp add: approve_request_def Let_def approved_by_def save_requests_def
      split: option.splits)

lemma os_error_neq [simp]:
  "os_error path refusal \<noteq> MarkupError" "os_error path refusal \<noteq> TypeError"
  by (cases refusal; simp)+


lemma module_init_simps:
  "heap module_init default_roles_addr = DEFAULT_ROLES"
  "open_for_write module_init path = None"
  "fs module_init path = Inl ENOENT"
  "markup_error module_init text = (text = ''edit [/etc/hosts]'')"
  by (simp_all add: module_init_def open_for_write_def)

lemma approver_engine_simps:
  "roles approver_engine = default_roles_addr"
  "user_roles approver_engine = [(''alice'', {JStr ''Approver''})]"
  by (simp_all add: approver_engine_def assign_role_to_user_def RBACEngine_def module_init_def
      role_table_of_def DEFAULT_ROLES_def logger_emit_def)

lemma alice_may_approve:
  "heap s default_roles_addr = DEFAULT_ROLES \<Longrightarrow>
   has_permission s approver_engine ''alice'' APPROVE_CHANGES"
  by (simp add: has_permission_def get_user_permissions_def role_table_of_def
      approver_engine_simps DEFAULT_ROLES_def Role_def)

lemma bob_has_no_permission: "\<not> has_permission s approver_engine ''bob'' p"
  by (simp add: has_permission_def get_user_permissions_def approver_engine_simps)

lemma request_R1_simps:
  "id' request_R1 = ''R1''" "status request_R1 = PENDING" "approver_id request_R1 = None"
  "created_at request_R1 = time_a" "updated_at request_R1 = time_a" "comments request_R1 = []"
  by (simp_all add: request_R1_def ApprovalRequest_def)

lemma request_R1_fields:
  "requester_id request_R1 = JStr ''bob''" "change_summary request_R1 = JStr ''add subnet''"
  "change_details request_R1 = JObj [(''description'', JStr ''one more subnet'')]"
  "approver_role request_R1 = ''Approver''"
  by (simp_all add: request_R1_def ApprovalRequest_def)

lemma request_R2_simps:
  "id' request_R2 = ''R2''" "status request_R2 = PENDING" "created_at request_R2 = time_b"
  "requester_id request_R2 = JStr ''bob''" "change_summary request_R2 = JStr ''add route''"
  "change_details request_R2 = JObj [(''description'', JStr ''one more route'')]"
  by (simp_all add: request_R2_def ApprovalRequest_def)

lemma request_R1_again_simps:
  "id' request_R1_again = ''R1''" "requester_id request_R1_again = JStr ''dave''"
  "change_summary request_R1_again = JStr ''drop table''"
  "change_details request_R1_again = JObj []"
  by (simp_all add: request_R1_again_def ApprovalRequest_def)

lemma serialisable_to_dict:
  "serialisable (to_dict r) \<longleftrightarrow>
     serialisable (requester_id r) \<and> serialisable (change_summary r)
     \<and> serialisable (change_details r)"
  by (auto simp add: to_dict_def comment_dict_def list_all_iff split: option.splits)

lemma serialisable_scenario_requests:
  "serialisable (to_dict request_R1)" "serialisable (to_dict request_R2)"
  "serialisable (to_dict request_R1_again)"
  "serialisable (to_dict (approved_by request_R1 now approver comment))"
  by (simp_all add: serialisable_to_dict request_R1_fields request_R2_simps
      request_R1_again_simps approved_by_def)

lemma workflow_R1_simps:
  "requests workflow_R1 = [(''R1'', request_R1)]"
  "storage_file workflow_R1 = ''approvals.json''"
  by (simp_all add: workflow_R1_def create_request_workflow empty_workflow_def request_R1_simps)

lemma sys_R1_heap: "heap sys_R1 = heap module_init"
  by (simp add: sys_R1_def create_request_heap)

lemma sys_R1_file:
  "fs sys_R1 ''approvals.json'' = Inr (Document (ledger_json [(''R1'', request_R1)]))"
  unfolding sys_R1_def
  by (subst create_request_saved(1))
     (simp_all add: module_init_simps empty_workflow_def request_R1_simps ledger_json_def
        serialisable_scenario_requests)

lemma create_request_env:
  "open_w (snd (snd (create_request s w req))) = open_w s"
  "markup_error (snd (snd (create_request s w req))) = markup_error s"
  by (auto simp add: create_request_def Let_def split: prod.splits sum.splits
      dest!: save_requests_frameD audit_logger_log_frameD console_print_frameD)

lemma approve_request_env:
  "open_w (snd (snd (approve_request s e w now rid a c))) = open_w s"
  "markup_error (snd (snd (approve_request s e w now rid a c))) = markup_error s"
  by (auto simp add: approve_request_def Let_def split: prod.splits sum.splits option.splits
      dest!: save_requests_frameD audit_logger_log_frameD console_print_frameD)

lemma sys_R1_env:
  "open_for_write sys_R1 ''approvals.json'' = None"
  "markup_error sys_R1 text = (text = ''edit [/etc/hosts]'')"
proof -
  have "open_w sys_R1 = open_w module_init"
    by (simp add: sys_R1_def create_request_env)
  then show "open_for_write sys_R1 ''approvals.json'' = None"
    by (simp add: open_for_write_def sys_R1_file module_init_def)
  show "markup_error sys_R1 text = (text = ''edit [/etc/hosts]'')"
    by (simp add: sys_R1_def create_request_env module_init_simps)
qed

lemma alice_may_approve_R1: "has_permission sys_R1 approver_engine ''alice'' APPROVE_CHANGES"
  by (rule alice_may_approve) (simp add: sys_R1_heap module_init_simps)

lemma R1_in_workflow_R1: "map_of (requests workflow_R1) ''R1'' = Some request_R1"
  by (simp add: workflow_R1_simps)

lemma approved_R1_ledger:
  "serialisable (ledger_json (AList.update ''R1'' (approved_by request_R1 now approver comment)
                                (requests workflow_R1)))"
  by (simp add: workflow_R1_simps ledger_json_def serialisable_scenario_requests)

lemma approve_R1_by_alice:
  "fst (approve_request sys_R1 approver_engine workflow_R1 now ''R1'' ''alice'' comment) = Inr ()"
  "requests (fst (snd (approve_request sys_R1 approver_engine workflow_R1 now ''R1'' ''alice''
                         comment))) = [(''R1'', approved_by request_R1 now ''alice'' comment)]"
  "storage_file (fst (snd (approve_request sys_R1 approver_engine workflow_R1 now ''R1''
                             ''alice'' comment))) = ''approvals.json''"
  "fs (snd (snd (approve_request sys_R1 approver_engine workflow_R1 now ''R1'' ''alice''
                   comment))) ''approvals.json'' =
     Inr (Document (ledger_json [(''R1'', approved_by request_R1 now ''alice'' comment)]))"
proof -
  note ok = approve_request_saved [OF R1_in_workflow_R1 alice_may_approve_R1 _ approved_R1_ledger,
      where now = now and comment = comment]
  show "fst (approve_request sys_R1 approver_engine workflow_R1 now ''R1'' ''alice'' comment)
        = Inr ()"
    by (subst ok(2))
       (simp_all add: workflow_R1_simps sys_R1_env markup_rejected_def quoted_def)
  show "requests (fst (snd (approve_request sys_R1 approver_engine workflow_R1 now ''R1''
          ''alice'' comment))) = [(''R1'', approved_by request_R1 now ''alice'' comment)]"
    by (simp add: approve_request_workflow [OF R1_in_workflow_R1 alice_may_approve_R1]
        workflow_R1_simps)
  show "storage_file (fst (snd (approve_request sys_R1 approver_engine workflow_R1 now ''R1''
          ''alice'' comment))) = ''approvals.json''"
    by (simp add: approve_request_workflow [OF R1_in_workflow_R1 alice_may_approve_R1]
        workflow_R1_simps)
  show "fs (snd (snd (approve_request sys_R1 approver_engine workflow_R1 now ''R1'' ''alice''
                   comment))) ''approvals.json'' =
     Inr (Document (ledger_json [(''R1'', approved_by request_R1 now ''alice'' comment)]))"
    by (subst ok(1)) (simp_all add: workflow_R1_simps sys_R1_env)
qed

lemma first_approval_simps:
  "fst first_approval = Inr ()"
  "requests (fst (snd first_approval)) = [(''R1'', approved_by request_R1 time_b ''alice'' None)]"
  "storage_file (fst (snd first_approval)) = ''approvals.json''"
  "fs (snd (snd first_approval)) ''approvals.json'' =
     Inr (Document (ledger_json [(''R1'', approved_by request_R1 time_b ''alice'' None)]))"
  "heap (snd (snd first_approval)) = heap module_init"
  "markup_error (snd (snd first_approval)) text = (text = ''edit [/etc/hosts]'')"
  by (simp_all add: first_approval_def approve_R1_by_alice approve_request_heap sys_R1_heap
      approve_request_env sys_R1_env)

lemma first_approval_open:
  "open_for_write (snd (snd first_approval)) ''approvals.json'' = None"
proof -
  have "open_w (snd (snd first_approval)) = open_w module_init"
    by (simp add: first_approval_def approve_request_env sys_R1_def create_request_env)
  then show ?thesis
    by (simp add: open_for_write_def first_approval_simps module_init_def)
qed

lemma alice_may_approve_again:
  "has_permission (snd (snd first_approval)) approver_engine ''alice'' APPROVE_CHANGES"
  by (rule alice_may_approve) (simp add: first_approval_simps module_init_simps)

lemma approved_by_simps:
  "status (approved_by R now approver comment) = APPROVED"
  "updated_at (approved_by R now approver comment) = now"
  "approver_id (approved_by R now approver comment) = Some approver"
  "created_at (approved_by R now approver comment) = created_at R"
  "requester_id (approved_by R now approver comment) = requester_id R"
  "change_summary (approved_by R now approver comment) = change_summary R"
  "change_details (approved_by R now approver comment) = change_details R"
  "id' (approved_by R now approver comment) = id' R"
  by (simp_all add: approved_by_def)

section \<open>Approving what is already approved\<close>

text \<open>
  C1, as the specification states it, fails: in the scenario alice's first approval of R1
  succeeds and leaves it approved with \<open>updated_at = time_b\<close>; her second call does not
  fail, and \<open>updated_at\<close> is \<open>time_c\<close> afterwards.
\<close>

theorem approve_request_twice_counterexample:
  "fst first_approval = Inr ()
   \<and> map_option status (map_of (requests (fst (snd first_approval))) ''R1'') = Some APPROVED
   \<and> fst second_approval = Inr ()
   \<and> map_option updated_at (map_of (requests (fst (snd first_approval))) ''R1'') = Some time_b
   \<and> map_option updated_at (map_of (requests (fst (snd second_approval))) ''R1'') = Some time_c
   \<and> time_c \<noteq> time_b"
proof -
  have in1: "map_of (requests (fst (snd first_approval))) ''R1'' =
               Some (approved_by request_R1 time_b ''alice'' None)"
    by (simp add: first_approval_simps)
  have ser: "serialisable (ledger_json (AList.update ''R1''
               (approved_by (approved_by request_R1 time_b ''alice'' None) time_c ''alice'' None)
               (requests (fst (snd first_approval)))))"
    by (simp add: first_approval_simps ledger_json_def serialisable_to_dict approved_by_simps
        request_R1_fields)
  have open1: "open_for_write (snd (snd first_approval)) (storage_file (fst (snd first_approval)))
               = None"
    by (simp add: first_approval_simps first_approval_open)
  note second = approve_request_saved(2) [OF in1 alice_may_approve_again open1 ser]
    approve_request_workflow [OF in1 alice_may_approve_again, where now = time_c and comment = None]
  show ?thesis
    using second
    by (simp add: first_approval_simps second_approval_def approved_by_simps markup_rejected_def
        quoted_def time_b_def time_c_def)
qed

lemma approve_request_outcome:
  assumes "map_of (requests w) rid = Some R"
    and "has_permission s e approver APPROVE_CHANGES"
  shows "requests (fst (snd (approve_request s e w now rid approver comment))) =
           AList.update rid (approved_by R now approver comment) (requests w)"
    and "storage_file (fst (snd (approve_request s e w now rid approver comment))) =
           storage_file w"
    and "fst (approve_request s e w now rid approver comment) = Inr () \<longleftrightarrow>
           open_for_write s (storage_file w) = None
           \<and> serialisable (ledger_json
                (AList.update rid (approved_by R now approver comment) (requests w)))
           \<and> \<not> markup_rejected s
                 (''[green]Approval request '' @ quoted rid @ '' approved.[/green]'')"
    and "open_for_write s (storage_file w) = None
         \<and> serialisable (ledger_json
              (AList.update rid (approved_by R now approver comment) (requests w)))
         \<longrightarrow> fs (snd (snd (approve_request s e w now rid approver comment))) (storage_file w) =
               Inr (Document (ledger_json
                      (AList.update rid (approved_by R now approver comment) (requests w))))"
    and "fst (approve_request s e w now rid approver comment) \<noteq> Inr () \<longrightarrow>
           fst (approve_request s e w now rid approver comment) = Inl MarkupError
           \<or> fst (approve_request s e w now rid approver comment) = Inl TypeError
           \<or> (\<exists>refusal. fst (approve_request s e w now rid approver comment)
                          = Inl (os_error (storage_file w) refusal))"
proof -
  let ?l = "AList.update rid (approved_by R now approver comment) (requests w)"
  let ?r = "approve_request s e w now rid approver comment"
  note wf = approve_request_workflow [OF assms, where now = now and comment = comment]
  show "requests (fst (snd ?r)) = ?l" and "storage_file (fst (snd ?r)) = storage_file w"
    by (simp_all add: wf)
  have "(fst ?r = Inr () \<longleftrightarrow>
           open_for_write s (storage_file w) = None \<and> serialisable (ledger_json ?l)
           \<and> \<not> markup_rejected s
                 (''[green]Approval request '' @ quoted rid @ '' approved.[/green]''))
        \<and> (open_for_write s (storage_file w) = None \<and> serialisable (ledger_json ?l)
           \<longrightarrow> fs (snd (snd ?r)) (storage_file w) = Inr (Document (ledger_json ?l)))
        \<and> (fst ?r \<noteq> Inr () \<longrightarrow>
             fst ?r = Inl MarkupError \<or> fst ?r = Inl TypeError
             \<or> (\<exists>refusal. fst ?r = Inl (os_error (storage_file w) refusal)))"
  proof (cases "open_for_write s (storage_file w) = None \<and> serialisable (ledger_json ?l)")
    case True
    then have o: "open_for_write s (storage_file w) = None"
      and l: "serialisable (ledger_json ?l)" by simp_all
    note sv = approve_request_saved [OF assms o l]
    show ?thesis
      using True by (simp add: sv)
  next
    case False
    from approve_request_not_saved [OF assms False]
    have "fst ?r = Inl TypeError
          \<or> (\<exists>refusal. fst ?r = Inl (os_error (storage_file w) refusal))" .
    then show ?thesis
      using False by auto
  qed
  then show "fst ?r = Inr () \<longleftrightarrow>
           open_for_write s (storage_file w) = None \<and> serialisable (ledger_json ?l)
           \<and> \<not> markup_rejected s
                 (''[green]Approval request '' @ quoted rid @ '' approved.[/green]'')"
    and "open_for_write s (storage_file w) = None \<and> serialisable (ledger_json ?l)
           \<longrightarrow> fs (snd (snd ?r)) (storage_file w) = Inr (Document (ledger_json ?l))"
    and "fst ?r \<noteq> Inr () \<longrightarrow>
             fst ?r = Inl MarkupError \<or> fst ?r = Inl TypeError
             \<or> (\<exists>refusal. fst ?r = Inl (os_error (storage_file w) refusal))"
    by blast+
qed

text \<open>
  C1, amended. \<open>approve_request\<close> never looks at the current status, and no
  invalid-transition error exists. On a record that is already approved, a call by an
  approver who holds \<open>approvals:approve\<close> overwrites the record in memory in every case:
  the status stays approved, \<open>approver_id\<close> becomes this caller and \<open>updated_at\<close> the
  time of this call. The call returns normally exactly when the ledger file opens for
  writing, the ledger serialises and rich accepts the closing message; whenever the write
  goes through, the file holds the new ledger. A call that raises does so from the write
  (an \<open>OSError\<close> of \<open>open\<close>, or \<open>TypeError\<close> of \<open>json.dump\<close>) or from the message
  (\<open>MarkupError\<close>), never because of the status.
\<close>

theorem approve_request_on_approved:
  assumes "map_of (requests w) rid = Some R"
    and "status R = APPROVED"
    and "has_permission s e approver APPROVE_CHANGES"
  shows "case approve_request s e w now rid approver comment of
           (res, w', s') \<Rightarrow>
             (\<exists>R'. map_of (requests w') rid = Some R' \<and> status R' = APPROVED
                    \<and> approver_id R' = Some approver \<and> updated_at R' = now)
             \<and> (res = Inr () \<longleftrightarrow>
                  open_for_write s (storage_file w) = None
                  \<and> serialisable (ledger_json (requests w'))
                  \<and> \<not> markup_rejected s
                        (''[green]Approval request '' @ quoted rid @ '' approved.[/green]''))
             \<and> (open_for_write s (storage_file w) = None
                  \<and> serialisable (ledger_json (requests w'))
                \<longrightarrow> fs s' (storage_file w) = Inr (Document (ledger_json (requests w'))))
             \<and> (res \<noteq> Inr () \<longrightarrow>
                  res = Inl MarkupError \<or> res = Inl TypeError
                  \<or> (\<exists>refusal. res = Inl (os_error (storage_file w) refusal)))"
proof -
  let ?r = "approve_request s e w now rid approver comment"
  note o = approve_request_outcome [OF assms(1,3), where now = now and comment = comment]
  have a: "\<exists>R'. map_of (requests (fst (snd ?r))) rid = Some R' \<and> status R' = APPROVED
                \<and> approver_id R' = Some approver \<and> updated_at R' = now"
    by (simp add: o(1) update_conv' approved_by_simps)
  show ?thesis
    unfolding split_beta using a o(3,4,5) by (simp only: o(1))
qed

theorem approve_request_on_approved_witness:
  "map_of (requests (fst (snd first_approval))) ''R1'' =
     Some (approved_by request_R1 time_b ''alice'' None)
   \<and> status (approved_by request_R1 time_b ''alice'' None) = APPROVED
   \<and> has_permission (snd (snd first_approval)) approver_engine ''alice'' APPROVE_CHANGES
   \<and> (case approve_request (snd (snd first_approval)) approver_engine (fst (snd first_approval))
             time_c ''R1'' ''alice'' None of
        (res, w', s') \<Rightarrow>
          res = Inr ()
          \<and> (\<exists>R'. map_of (requests w') ''R1'' = Some R' \<and> status R' = APPROVED
                   \<and> approver_id R' = Some ''alice'' \<and> updated_at R' = time_c)
          \<and> fs s' ''approvals.json'' = Inr (Document (ledger_json (requests w'))))"
proof -
  have h1: "map_of (requests (fst (snd first_approval))) ''R1'' =
              Some (approved_by request_R1 time_b ''alice'' None)"
    by (simp add: first_approval_simps)
  have h2: "status (approved_by request_R1 time_b ''alice'' None) = APPROVED"
    by (simp add: approved_by_simps)
  note h3 = alice_may_approve_again
  have wf: "fst (snd (approve_request (snd (snd first_approval)) approver_engine
                        (fst (snd first_approval)) time_c ''R1'' ''alice'' None)) =
            (fst (snd first_approval))\<lparr>requests :=
               [(''R1'', approved_by (approved_by request_R1 time_b ''alice'' None)
                           time_c ''alice'' None)]\<rparr>"
    by (simp add: approve_request_workflow [OF h1 h3] first_approval_simps)
  have ser: "serialisable (ledger_json
               [(''R1'', approved_by (approved_by request_R1 time_b ''alice'' None)
                           time_c ''alice'' None)])"
    by (simp add: ledger_json_def serialisable_to_dict approved_by_simps request_R1_fields)
  have mk: "\<not> markup_rejected (snd (snd first_approval))
                (''[green]Approval request '' @ quoted ''R1'' @ '' approved.[/green]'')"
    by (simp add: markup_rejected_def first_approval_simps quoted_def)
  from approve_request_on_approved [OF h1 h2 h3, where now = time_c and comment = None]
    h1 h2 h3 wf ser mk
  show ?thesis
    by (simp add: split_beta first_approval_simps first_approval_open)
qed

section \<open>Approving with an empty comment\<close>

text \<open>
  C10. When a permitted approver approves a pending request, the record in the ledger
  becomes approved, with this approver and this time, whatever the comment is. With the
  empty string as comment, and with no comment, the comments list is unchanged; with a
  non-empty string it grows by exactly the one entry for this approver and this comment.
  The call returns normally exactly when the ledger file opens for writing, the ledger
  serialises and rich accepts the closing message, and whenever the write goes through
  the file holds the ledger with the approved record.
\<close>

theorem approve_request_empty_comment:
  assumes "map_of (requests w) rid = Some R"
    and "status R = PENDING"
    and "has_permission s e approver APPROVE_CHANGES"
  shows "case approve_request s e w now rid approver comment of
           (res, w', s') \<Rightarrow>
             (\<exists>R'. map_of (requests w') rid = Some R'
                  \<and> status R' = APPROVED \<and> approver_id R' = Some approver
                  \<and> updated_at R' = now
                  \<and> (comment = Some [] \<longrightarrow> comments R' = comments R)
                  \<and> (comment = None \<longrightarrow> comments R' = comments R)
                  \<and> (\<forall>c. comment = Some c \<and> c \<noteq> [] \<longrightarrow>
                         comments R' = comments R @ [(approver, c)]))
             \<and> (res = Inr () \<longleftrightarrow>
                  open_for_write s (storage_file w) = None
                  \<and> serialisable (ledger_json (requests w'))
                  \<and> \<not> markup_rejected s
                        (''[green]Approval request '' @ quoted rid @ '' approved.[/green]''))
             \<and> (open_for_write s (storage_file w) = None
                  \<and> serialisable (ledger_json (requests w'))
                \<longrightarrow> fs s' (storage_file w) = Inr (Document (ledger_json (requests w'))))"
proof -
  let ?r = "approve_request s e w now rid approver comment"
  note o = approve_request_outcome [OF assms(1,3), where now = now and comment = comment]
  have a: "\<exists>R'. map_of (requests (fst (snd ?r))) rid = Some R'
                  \<and> status R' = APPROVED \<and> approver_id R' = Some approver
                  \<and> updated_at R' = now
                  \<and> (comment = Some [] \<longrightarrow> comments R' = comments R)
                  \<and> (comment = None \<longrightarrow> comments R' = comments R)
                  \<and> (\<forall>c. comment = Some c \<and> c \<noteq> [] \<longrightarrow>
                         comments R' = comments R @ [(approver, c)])"
    by (simp add: o(1) update_conv' approved_by_def)
  show ?thesis
    unfolding split_beta using a o(3,4) by (simp only: o(1))
qed

theorem approve_request_empty_comment_witness:
  "map_of (requests workflow_R1) ''R1'' = Some request_R1
   \<and> status request_R1 = PENDING
   \<and> has_permission sys_R1 approver_engine ''alice'' APPROVE_CHANGES
   \<and> (case approve_request sys_R1 approver_engine workflow_R1 time_b ''R1'' ''alice'' (Some []) of
        (res, w', s') \<Rightarrow>
          res = Inr ()
          \<and> (\<exists>R'. map_of (requests w') ''R1'' = Some R' \<and> status R' = APPROVED
                   \<and> approver_id R' = Some ''alice'' \<and> updated_at R' = time_b
                   \<and> comments R' = [])
          \<and> fs s' ''approvals.json'' = Inr (Document (ledger_json (requests w'))))
   \<and> (case approve_request sys_R1 approver_engine workflow_R1 time_b ''R1'' ''alice''
             (Some ''looks good'') of
        (res, w', s') \<Rightarrow>
          res = Inr ()
          \<and> (\<exists>R'. map_of (requests w') ''R1'' = Some R' \<and> status R' = APPROVED
                   \<and> comments R' = [(''alice'', ''looks good'')]))"
proof -
  note h1 = R1_in_workflow_R1
  have h2: "status request_R1 = PENDING"
    by (simp add: request_R1_simps)
  note h3 = alice_may_approve_R1
  have ser: "\<And>comment. serialisable (ledger_json
               [(''R1'', approved_by request_R1 time_b ''alice'' comment)])"
    by (simp add: ledger_json_def serialisable_scenario_requests)
  have mk: "\<not> markup_rejected sys_R1
                (''[green]Approval request '' @ quoted ''R1'' @ '' approved.[/green]'')"
    by (simp add: markup_rejected_def sys_R1_env quoted_def)
  from approve_request_empty_comment [OF h1 h2 h3, where now = time_b and comment = "Some []"]
    approve_request_empty_comment [OF h1 h2 h3, where now = time_b
      and comment = "Some ''looks good''"]
    h1 h2 h3 ser mk
  show ?thesis
    by (simp add: split_beta approve_R1_by_alice workflow_R1_simps sys_R1_env request_R1_simps)
qed

lemma getitem_to_dict:
  "getitem (to_dict r) ''requester_id'' = Inr (requester_id r)"
  "getitem (to_dict r) ''change_summary'' = Inr (change_summary r)"
  "getitem (to_dict r) ''change_details'' = Inr (change_details r)"
  "getitem (to_dict r) ''status'' = Inr (JStr (status_value (status r)))"
  by (simp_all add: to_dict_def)

lemma ApprovalStatus_of_value: "ApprovalStatus_of (JStr (status_value st)) = Inr st"
  by (cases st) simp_all

section \<open>Rejecting\<close>

text \<open>
  C2, as the specification states it, fails: the class has no \<open>reject_request\<close>. In the
  scenario R1 is pending and alice holds \<open>approvals:reject\<close>, yet calling
  \<open>reject_request\<close> on the workflow raises \<open>AttributeError\<close> and changes nothing.
\<close>

theorem reject_request_counterexample:
  "map_of (requests workflow_R1) ''R1'' = Some request_R1
   \<and> status request_R1 = PENDING
   \<and> has_permission sys_R1 approver_engine ''alice'' REJECT_CHANGES
   \<and> call_method sys_R1 approver_engine workflow_R1 reload_uuids reload_clock time_b
        ''reject_request'' (Transition_args ''R1'' ''alice'' None)
      = (Inl AttributeError, workflow_R1, sys_R1)"
  by (simp add: workflow_R1_simps request_R1_simps call_method_def ApprovalWorkflow_methods_def
      has_permission_def get_user_permissions_def role_table_of_def approver_engine_simps
      sys_R1_heap module_init_def DEFAULT_ROLES_def Role_def)

text \<open>
  C2, amended. The workflow offers no \<open>reject_request\<close>: calling it raises
  \<open>AttributeError\<close> for every ledger, every approver (with or without
  \<open>approvals:reject\<close>) and every argument list, and leaves workflow and world as they
  were.
\<close>

theorem reject_request_absent:
  "call_method s e w uuids clock now ''reject_request'' args = (Inl AttributeError, w, s)"
  by (simp add: call_method_def ApprovalWorkflow_methods_def)

section \<open>Approving without the permission\<close>

text \<open>
  C3. When the ledger holds a pending request \<open>R\<close> under \<open>rid\<close> and the RBAC engine says
  the actor lacks \<open>approvals:approve\<close>, \<open>approve_request\<close> raises \<open>PermissionError\<close>; the
  record under \<open>rid\<close> is still pending with the approver it had, the workflow object is
  unchanged, and nothing of the world, the storage file included, was written.
\<close>

theorem approve_request_without_permission:
  assumes "map_of (requests w) rid = Some R"
    and "status R = PENDING"
    and "\<not> has_permission s e actor APPROVE_CHANGES"
  shows "case approve_request s e w now rid actor comment of
           (res, w', s') \<Rightarrow>
             (\<exists>msg. res = Inl (PermissionError msg))
             \<and> (\<exists>R'. map_of (requests w') rid = Some R' \<and> status R' = PENDING
                      \<and> approver_id R' = approver_id R)
             \<and> w' = w \<and> fs s' = fs s \<and> s' = s"
  using assms by (simp add: approve_request_def)

theorem approve_request_without_permission_witness:
  "map_of (requests workflow_R1) ''R1'' = Some request_R1
   \<and> status request_R1 = PENDING
   \<and> \<not> has_permission sys_R1 approver_engine ''bob'' APPROVE_CHANGES
   \<and> (case approve_request sys_R1 approver_engine workflow_R1 time_b ''R1'' ''bob'' None of
        (res, w', s') \<Rightarrow>
          (\<exists>msg. res = Inl (PermissionError msg))
          \<and> (\<exists>R'. map_of (requests w') ''R1'' = Some R' \<and> status R' = PENDING
                   \<and> approver_id R' = approver_id request_R1)
          \<and> w' = workflow_R1 \<and> fs s' = fs sys_R1 \<and> s' = sys_R1)"
proof -
  have h1: "map_of (requests workflow_R1) ''R1'' = Some request_R1"
    by (simp add: workflow_R1_simps)
  have h2: "status request_R1 = PENDING"
    by (simp add: request_R1_simps)
  have h3: "\<not> has_permission sys_R1 approver_engine ''bob'' APPROVE_CHANGES"
    by (rule bob_has_no_permission)
  from approve_request_without_permission [OF h1 h2 h3, of time_b None] h1 h2 h3
  show ?thesis by simp
qed

section \<open>Saving and loading the ledger\<close>

text \<open>
  C4 at a failing input. After bob filed R1 the workflow lists it with creation time
  \<open>time_a\<close>. A fresh workflow opened on the saved file, at a moment when the clock reads
  \<open>time_c\<close>, lists the same id, requester and summary with creation time \<open>time_c\<close>:
  \<open>_load_requests\<close> builds each request anew and never reads \<open>created_at\<close> back.
\<close>

theorem reload_resets_created_at:
  "map created_at (pending_requests workflow_R1) = [time_a]
   \<and> map_sum (\<lambda>err. err) (\<lambda>w. map created_at (pending_requests w)) reloaded_R1 = Inr [time_c]
   \<and> time_c \<noteq> time_a
   \<and> map id' (pending_requests workflow_R1) = [''R1'']
   \<and> map_sum (\<lambda>err. err) (\<lambda>w. map id' (pending_requests w)) reloaded_R1 = Inr [''R1'']
   \<and> map requester_id (pending_requests workflow_R1) = [JStr ''bob'']
   \<and> map_sum (\<lambda>err. err) (\<lambda>w. map requester_id (pending_requests w)) reloaded_R1
        = Inr [JStr ''bob'']
   \<and> map change_summary (pending_requests workflow_R1) = [JStr ''add subnet'']
   \<and> map_sum (\<lambda>err. err) (\<lambda>w. map change_summary (pending_requests w)) reloaded_R1
        = Inr [JStr ''add subnet'']"
  by (simp add: reloaded_R1_def ApprovalWorkflow_def load_requests_def sys_R1_file
      ledger_json_def getitem_to_dict ApprovalStatus_of_value pending_requests_def
      workflow_R1_simps request_R1_simps request_R1_fields ApprovalRequest_def
      reload_clock_def time_a_def time_c_def)

text \<open>
  C5 at a failing input. After alice approved R1 its \<open>approver_id\<close> is alice. A fresh
  workflow opened on the saved file holds R1 with status approved and no \<open>approver_id\<close>:
  \<open>_load_requests\<close> reads the status back and leaves \<open>approver_id\<close> as the constructor
  set it.
\<close>

theorem reload_drops_approver_id:
  "map_option approver_id (map_of (requests (fst (snd first_approval))) ''R1'')
     = Some (Some ''alice'')
   \<and> map_sum (\<lambda>err. err) (\<lambda>w. map_option status (map_of (requests w) ''R1''))
        reloaded_approved = Inr (Some APPROVED)
   \<and> map_sum (\<lambda>err. err) (\<lambda>w. map_option approver_id (map_of (requests w) ''R1''))
        reloaded_approved = Inr (Some None)"
  by (simp add: reloaded_approved_def ApprovalWorkflow_def load_requests_def
      first_approval_simps ledger_json_def getitem_to_dict approved_by_simps
      ApprovalRequest_def)

section \<open>The shared default role table\<close>

text \<open>
  C9. Two engines built without a role table both refer to the one module-level default
  table. When a role whose name is not yet in that table is added through engine \<open>A\<close>,
  the call succeeds and the role is in engine \<open>B\<close>'s table too, where it was not before:
  the two tables are one object, and \<open>B\<close>'s table has changed.
\<close>

theorem add_role_reaches_other_default_engine:
  assumes "A = RBACEngine sa None"
    and "B = RBACEngine sb None"
    and "map_of (role_table_of s A) (name r) = None"
  shows "case add_role s A r of
           (res, s') \<Rightarrow>
             res = Inr ()
             \<and> map_of (role_table_of s B) (name r) = None
             \<and> map_of (role_table_of s' B) (name r) = Some r
             \<and> role_table_of s' B = role_table_of s' A
             \<and> role_table_of s' B \<noteq> role_table_of s B"
proof -
  from assms(1,2) have same: "roles B = roles A"
    by (simp add: RBACEngine_def)
  have upd: "map_of (AList.update (name r) r (heap s (roles A))) (name r) = Some r"
    by (simp add: update_conv')
  from assms(3) have old: "map_of (heap s (roles A)) (name r) = None"
    by (simp add: role_table_of_def)
  from upd old have neq: "AList.update (name r) r (heap s (roles A)) \<noteq> heap s (roles A)"
    by (metis option.distinct(1))
  from assms(3) same upd neq show ?thesis
    by (simp add: add_role_def role_table_of_def logger_emit_def)
qed

theorem add_role_reaches_other_default_engine_witness:
  "map_of (role_table_of module_init (RBACEngine module_init None)) (name operator_role) = None
   \<and> (case add_role module_init (RBACEngine module_init None) operator_role of
        (res, s') \<Rightarrow>
          res = Inr ()
          \<and> map_of (role_table_of module_init (RBACEngine sys_R1 None)) (name operator_role) = None
          \<and> map_of (role_table_of s' (RBACEngine sys_R1 None)) (name operator_role)
              = Some operator_role)"
proof -
  have h: "map_of (role_table_of module_init (RBACEngine module_init None)) (name operator_role)
           = None"
    by (simp add: role_table_of_def RBACEngine_def module_init_def DEFAULT_ROLES_def
        operator_role_def Role_def)
  from add_role_reaches_other_default_engine [OF refl refl h, where sb = sys_R1] h
  show ?thesis unfolding split_beta by blast
qed

lemma create_request_outcome:
  shows "requests (fst (snd (create_request s w req))) =
           AList.update (id' req) req (requests w)"
    and "storage_file (fst (snd (create_request s w req))) = storage_file w"
    and "fst (create_request s w req) = Inr () \<longleftrightarrow>
           open_for_write s (storage_file w) = None
           \<and> serialisable (ledger_json (AList.update (id' req) req (requests w)))
           \<and> \<not> markup_rejected s
                 (''[green]Approval request '' @ quoted (id' req) @ '' created.[/green]'')"
    and "open_for_write s (storage_file w) = None
         \<and> serialisable (ledger_json (AList.update (id' req) req (requests w)))
         \<longrightarrow> fs (snd (snd (create_request s w req))) (storage_file w) =
               Inr (Document (ledger_json (AList.update (id' req) req (requests w))))"
    and "fst (create_request s w req) \<noteq> Inr () \<longrightarrow>
           fst (create_request s w req) = Inl MarkupError
           \<or> fst (create_request s w req) = Inl TypeError
           \<or> (\<exists>refusal. fst (create_request s w req)
                          = Inl (os_error (storage_file w) refusal))"
proof -
  let ?l = "AList.update (id' req) req (requests w)"
  let ?r = "create_request s w req"
  show "requests (fst (snd ?r)) = ?l" and "storage_file (fst (snd ?r)) = storage_file w"
    by (simp_all add: create_request_workflow)
  have "(fst ?r = Inr () \<longleftrightarrow>
           open_for_write s (storage_file w) = None \<and> serialisable (ledger_json ?l)
           \<and> \<not> markup_rejected s
                 (''[green]Approval request '' @ quoted (id' req) @ '' created.[/green]''))
        \<and> (open_for_write s (storage_file w) = None \<and> serialisable (ledger_json ?l)
           \<longrightarrow> fs (snd (snd ?r)) (storage_file w) = Inr (Document (ledger_json ?l)))
        \<and> (fst ?r \<noteq> Inr () \<longrightarrow>
             fst ?r = Inl MarkupError \<or> fst ?r = Inl TypeError
             \<or> (\<exists>refusal. fst ?r = Inl (os_error (storage_file w) refusal)))"
  proof (cases "open_for_write s (storage_file w) = None \<and> serialisable (ledger_json ?l)")
    case True
    then have o: "open_for_write s (storage_file w) = None"
      and l: "serialisable (ledger_json ?l)" by simp_all
    note sv = create_request_saved [OF o l]
    show ?thesis
      using True by (simp add: sv)
  next
    case False
    from create_request_not_saved [OF False]
    have "fst ?r = Inl TypeError
          \<or> (\<exists>refusal. fst ?r = Inl (os_error (storage_file w) refusal))" .
    then show ?thesis
      using False by auto
  qed
  then show "fst ?r = Inr () \<longleftrightarrow>
           open_for_write s (storage_file w) = None \<and> serialisable (ledger_json ?l)
           \<and> \<not> markup_rejected s
                 (''[green]Approval request '' @ quoted (id' req) @ '' created.[/green]'')"
    and "open_for_write s (storage_file w) = None \<and> serialisable (ledger_json ?l)
           \<longrightarrow> fs (snd (snd ?r)) (storage_file w) = Inr (Document (ledger_json ?l))"
    and "fst ?r \<noteq> Inr () \<longrightarrow>
             fst ?r = Inl MarkupError \<or> fst ?r = Inl TypeError
             \<or> (\<exists>refusal. fst ?r = Inl (os_error (storage_file w) refusal))"
    by blast+
qed

lemma duplicate_create_simps:
  "fst duplicate_create = Inr ()"
  "requests (fst (snd duplicate_create)) = [(''R1'', request_R1_again)]"
  "fs (snd (snd duplicate_create)) ''approvals.json'' =
     Inr (Document (ledger_json [(''R1'', request_R1_again)]))"
proof -
  have l: "AList.update (id' request_R1_again) request_R1_again (requests workflow_R1) =
             [(''R1'', request_R1_again)]"
    by (simp add: workflow_R1_simps request_R1_again_simps)
  have o: "open_for_write sys_R1 (storage_file workflow_R1) = None"
    by (simp add: workflow_R1_simps sys_R1_env)
  have ser: "serialisable (ledger_json (AList.update (id' request_R1_again) request_R1_again
                                          (requests workflow_R1)))"
    by (simp add: l ledger_json_def serialisable_scenario_requests)
  have mk: "\<not> markup_rejected sys_R1
                (''[green]Approval request '' @ quoted (id' request_R1_again)
                 @ '' created.[/green]'')"
    by (simp add: markup_rejected_def sys_R1_env quoted_def request_R1_again_simps)
  note c = create_request_outcome [of sys_R1 workflow_R1 request_R1_again]
  show "fst duplicate_create = Inr ()"
    unfolding duplicate_create_def using c(3) o ser mk by blast
  show "requests (fst (snd duplicate_create)) = [(''R1'', request_R1_again)]"
    unfolding duplicate_create_def by (simp add: c(1) l)
  from c(4) o ser
  have "fs (snd (snd (create_request sys_R1 workflow_R1 request_R1_again)))
          (storage_file workflow_R1) =
        Inr (Document (ledger_json (AList.update (id' request_R1_again) request_R1_again
                                      (requests workflow_R1))))"
    by blast
  then show "fs (snd (snd duplicate_create)) ''approvals.json'' =
     Inr (Document (ledger_json [(''R1'', request_R1_again)]))"
    unfolding duplicate_create_def by (simp only: l workflow_R1_simps(2))
qed

section \<open>Creating a request under an id in use\<close>

text \<open>
  C7, as the specification states it, fails: in the scenario the ledger holds bob's R1;
  filing dave's request under the same id succeeds, the ledger then maps R1 to dave's
  request, and the storage file is rewritten.
\<close>

theorem create_request_duplicate_counterexample:
  "map_of (requests workflow_R1) ''R1'' = Some request_R1
   \<and> id' request_R1_again = ''R1''
   \<and> fst duplicate_create = Inr ()
   \<and> map_of (requests (fst (snd duplicate_create))) ''R1'' = Some request_R1_again
   \<and> requester_id request_R1_again \<noteq> requester_id request_R1
   \<and> fs (snd (snd duplicate_create)) ''approvals.json'' \<noteq> fs sys_R1 ''approvals.json''"
  by (simp add: duplicate_create_simps workflow_R1_simps request_R1_again_simps
      request_R1_fields sys_R1_file ledger_json_def to_dict_def)

text \<open>
  C7, amended. \<open>create_request\<close> has no duplicate check, and no duplicate-request error
  exists. When the ledger already holds a record under the new request's id, the new
  request takes the old record's place in memory in every case (same position in the
  ledger), and every other record is kept. The call returns normally exactly when the
  ledger file opens for writing, the resulting ledger serialises and rich accepts the
  closing message; whenever the write goes through, the file holds the resulting ledger.
  A call that raises does so from the write (an \<open>OSError\<close> of \<open>open\<close>, or \<open>TypeError\<close>
  of \<open>json.dump\<close>) or from the message (\<open>MarkupError\<close>), never because the id is in
  use.
\<close>

theorem create_request_existing_id:
  assumes "map_of (requests w) (id' req) = Some old"
  shows "case create_request s w req of
           (res, w', s') \<Rightarrow>
             map_of (requests w') (id' req) = Some req
             \<and> map fst (requests w') = map fst (requests w)
             \<and> (\<forall>k. k \<noteq> id' req \<longrightarrow> map_of (requests w') k = map_of (requests w) k)
             \<and> (res = Inr () \<longleftrightarrow>
                  open_for_write s (storage_file w) = None
                  \<and> serialisable (ledger_json (requests w'))
                  \<and> \<not> markup_rejected s
                        (''[green]Approval request '' @ quoted (id' req)
                         @ '' created.[/green]''))
             \<and> (open_for_write s (storage_file w) = None
                  \<and> serialisable (ledger_json (requests w'))
                \<longrightarrow> fs s' (storage_file w) = Inr (Document (ledger_json (requests w'))))
             \<and> (res \<noteq> Inr () \<longrightarrow>
                  res = Inl MarkupError \<or> res = Inl TypeError
                  \<or> (\<exists>refusal. res = Inl (os_error (storage_file w) refusal)))"
proof -
  let ?r = "create_request s w req"
  note o = create_request_outcome [of s w req]
  from assms have "id' req \<in> fst ` set (requests w)"
    by (rule map_of_SomeD [THEN imageI [where f = fst], simplified])
  then have keys: "map fst (AList.update (id' req) req (requests w)) = map fst (requests w)"
    by (simp add: update_keys)
  have a: "map_of (requests (fst (snd ?r))) (id' req) = Some req
           \<and> map fst (requests (fst (snd ?r))) = map fst (requests w)
           \<and> (\<forall>k. k \<noteq> id' req \<longrightarrow>
                  map_of (requests (fst (snd ?r))) k = map_of (requests w) k)"
    by (simp add: o(1) keys update_conv')
  show ?thesis
    unfolding split_beta using a o(3,4,5) by (simp only: o(1); blast)
qed

theorem create_request_existing_id_witness:
  "map_of (requests workflow_R1) (id' request_R1_again) = Some request_R1
   \<and> (case create_request sys_R1 workflow_R1 request_R1_again of
        (res, w', s') \<Rightarrow>
          res = Inr ()
          \<and> map_of (requests w') ''R1'' = Some request_R1_again
          \<and> map fst (requests w') = [''R1'']
          \<and> fs s' ''approvals.json'' = Inr (Document (ledger_json (requests w'))))"
proof -
  have h: "map_of (requests workflow_R1) (id' request_R1_again) = Some request_R1"
    by (simp add: workflow_R1_simps request_R1_again_simps)
  from create_request_existing_id [OF h, where s = sys_R1] h
    duplicate_create_simps [unfolded duplicate_create_def]
  show ?thesis
    by (simp add: split_beta request_R1_again_simps workflow_R1_simps)
qed




section \<open>Loading a corrupt RBAC state file\<close>




lemma cell_error: "cell v = Inl err \<Longrightarrow> err = NotRenderableError"
  by (cases v) simp_all

lemma table_row_error: "table_row req = Inl err \<Longrightarrow> err = NotRenderableError"
  by (auto simp add: table_row_def split: sum.splits dest: cell_error)

lemma add_rows_error: "add_rows reqs = Inl err \<Longrightarrow> err = NotRenderableError"
  by (induction reqs arbitrary: err) (auto split: sum.splits dest: table_row_error)

lemma add_rows_Inr_iff: "add_rows reqs = Inr rows \<longleftrightarrow> map table_row reqs = map Inr rows"
proof (induction reqs arbitrary: rows)
  case Nil
  then show ?case by auto
next
  case (Cons req reqs)
  show ?case
  proof (cases "table_row req")
    case (Inl err)
    then show ?thesis by (cases rows) auto
  next
    case row: (Inr row)
    show ?thesis
    proof (cases "add_rows reqs")
      case (Inl err)
      with Cons.IH have "\<And>rows'. map table_row reqs \<noteq> map Inr rows'" by simp
      with row Inl show ?thesis by (cases rows) auto
    next
      case (Inr rows')
      with Cons.IH [of rows'] have eq: "map table_row reqs = map Inr rows'" by simp
      have inj: "\<And>xs. map Inr rows' = map Inr xs \<longleftrightarrow> rows' = xs"
        by (simp add: inj_map_eq_map)
      from row Inr eq inj show ?thesis by (cases rows) auto
    qed
  qed
qed

lemma datetime_str_scenario:
  "datetime_str time_a = ''2025-01-01 10:00:00+00:00''"
  "datetime_str time_b = ''2025-01-02 09:30:00.000250+00:00''"
  by code_simp+

lemma workflow_R2_R1_requests:
  "requests workflow_R2_R1 = [(''R2'', request_R2), (''R1'', request_R1)]"
  by (simp add: workflow_R2_R1_def create_request_workflow empty_workflow_def request_R2_simps
      request_R1_simps)

lemma scenario_rows:
  "add_rows [request_R2, request_R1] =
     Inr [[''R2'', ''bob'', ''add route'', ''2025-01-02 09:30:00.000250+00:00''],
          [''R1'', ''bob'', ''add subnet'', ''2025-01-01 10:00:00+00:00'']]"
  by (simp add: table_row_def request_R2_simps request_R1_simps request_R1_fields
      datetime_str_scenario)

section \<open>Listing the pending requests\<close>

text \<open>
  C8, as the specification states it, fails: R2 was built after R1 and filed before it;
  both are pending, and the table lists R2 (created at \<open>time_b\<close>) above R1 (created at
  the earlier \<open>time_a\<close>).
\<close>

theorem list_pending_requests_order_counterexample:
  "pending_requests workflow_R2_R1 = [request_R2, request_R1]
   \<and> created_at request_R2 = time_b \<and> created_at request_R1 = time_a
   \<and> datetime_le time_a time_b \<and> \<not> datetime_le time_b time_a
   \<and> fst (list_pending_requests module_init workflow_R2_R1) = Inr ()
   \<and> console (snd (snd (list_pending_requests module_init workflow_R2_R1))) =
       [Table_out ''Pending Approval Requests''
          [(''ID'', ''cyan''), (''Requester'', ''green''),
           (''Summary'', ''magenta''), (''Created At'', ''yellow'')]
          [[''R2'', ''bob'', ''add route'', ''2025-01-02 09:30:00.000250+00:00''],
           [''R1'', ''bob'', ''add subnet'', ''2025-01-01 10:00:00+00:00'']]]"
proof -
  have p: "pending_requests workflow_R2_R1 = [request_R2, request_R1]"
    by (simp add: pending_requests_def workflow_R2_R1_requests request_R2_simps
        request_R1_simps)
  have t: "datetime_le time_a time_b \<and> \<not> datetime_le time_b time_a"
    by (simp add: datetime_le_def datetime_key_def time_a_def time_b_def)
  have l: "list_pending_requests module_init workflow_R2_R1 =
             (Inr (), workflow_R2_R1,
              module_init\<lparr>console :=
                [pending_table
                   [[''R2'', ''bob'', ''add route'', ''2025-01-02 09:30:00.000250+00:00''],
                    [''R1'', ''bob'', ''add subnet'', ''2025-01-01 10:00:00+00:00'']]]\<rparr>)"
    by (simp add: list_pending_requests_def p scenario_rows console_print_def pending_table_def
        markup_rejected_def module_init_def del: add_rows.simps)
  show ?thesis
    by (simp add: p t l request_R2_simps request_R1_simps pending_table_def)
qed

text \<open>
  C8, amended. \<open>list_pending_requests\<close> is a read-only query: in every case it leaves
  the workflow, the role tables, the files, the audit trail and the log as they were.
  It returns normally exactly when rich takes what it is given: with no pending record,
  when the notice line is accepted; otherwise when every pending record's requester and
  summary is a string or \<open>None\<close> and no text of the table is rejected as markup. Then it
  has printed one item: the notice line, or a table with one row for each record whose
  status is pending, and no other, in the order the ledger holds them (insertion order,
  not creation time). When it raises, the error is \<open>NotRenderableError\<close> or
  \<open>MarkupError\<close> and nothing was printed.
\<close>

theorem list_pending_requests_insertion_order:
  "case list_pending_requests s w of
     (res, w', s') \<Rightarrow>
       w' = w \<and> heap s' = heap s \<and> fs s' = fs s \<and> audit_trail s' = audit_trail s
       \<and> logger s' = logger s
       \<and> (res = Inr () \<longleftrightarrow>
            (if filter (\<lambda>r. status r = PENDING) (map snd (requests w)) = []
             then \<not> markup_rejected s ''[yellow]No pending approval requests.[/yellow]''
             else (\<exists>rows. map table_row (filter (\<lambda>r. status r = PENDING)
                                           (map snd (requests w))) = map Inr rows
                          \<and> \<not> list_ex (markup_rejected s) (item_texts (pending_table rows)))))
       \<and> (res = Inr () \<and> filter (\<lambda>r. status r = PENDING) (map snd (requests w)) = []
          \<longrightarrow> console s' = console s @ [Line ''[yellow]No pending approval requests.[/yellow]''])
       \<and> (res = Inr () \<and> filter (\<lambda>r. status r = PENDING) (map snd (requests w)) \<noteq> []
          \<longrightarrow> (\<exists>rows. map table_row (filter (\<lambda>r. status r = PENDING)
                                          (map snd (requests w))) = map Inr rows
                         \<and> console s' = console s @ [pending_table rows]))
       \<and> (res \<noteq> Inr () \<longrightarrow>
            s' = s \<and> (res = Inl NotRenderableError \<or> res = Inl MarkupError))"
proof -
  let ?pending = "filter (\<lambda>r. status r = PENDING) (map snd (requests w))"
  have pr: "pending_requests w = ?pending" by (simp add: pending_requests_def)
  show ?thesis
  proof (cases "?pending = []")
    case True
    then show ?thesis
      by (simp add: list_pending_requests_def pr console_print_def)
  next
    case False
    show ?thesis
    proof (cases "add_rows ?pending")
      case (Inl err)
      then have none: "\<And>rows. map table_row ?pending \<noteq> map Inr rows"
        by (simp add: add_rows_Inr_iff [symmetric])
      from Inl have "err = NotRenderableError" by (rule add_rows_error)
      with Inl False none show ?thesis
        by (simp add: list_pending_requests_def pr)
    next
      case (Inr rows)
      then have eq: "map table_row ?pending = map Inr rows"
        by (simp add: add_rows_Inr_iff)
      have uniq: "\<And>rows'. map table_row ?pending = map Inr rows' \<longleftrightarrow> rows' = rows"
        using eq by (auto simp add: inj_map_eq_map)
      from Inr False show ?thesis
        by (simp add: list_pending_requests_def pr console_print_def uniq)
    qed
  qed
qed

theorem list_pending_requests_insertion_order_witness:
  "(case list_pending_requests module_init workflow_R2_R1 of
      (res, w', s') \<Rightarrow>
        res = Inr () \<and> w' = workflow_R2_R1 \<and> fs s' = fs module_init
        \<and> map table_row (filter (\<lambda>r. status r = PENDING) (map snd (requests workflow_R2_R1)))
            = map Inr [[''R2'', ''bob'', ''add route'', ''2025-01-02 09:30:00.000250+00:00''],
                       [''R1'', ''bob'', ''add subnet'', ''2025-01-01 10:00:00+00:00'']]
        \<and> console s' = console module_init @
             [pending_table
                [[''R2'', ''bob'', ''add route'', ''2025-01-02 09:30:00.000250+00:00''],
                 [''R1'', ''bob'', ''add subnet'', ''2025-01-01 10:00:00+00:00'']]])"
proof -
  let ?rows = "[[''R2'', ''bob'', ''add route'', ''2025-01-02 09:30:00.000250+00:00''],
                [''R1'', ''bob'', ''add subnet'', ''2025-01-01 10:00:00+00:00'']]"
  have p: "filter (\<lambda>r. status r = PENDING) (map snd (requests workflow_R2_R1)) =
             [request_R2, request_R1]"
    by (simp add: workflow_R2_R1_requests request_R2_simps request_R1_simps)
  have rows: "map table_row [request_R2, request_R1] = map Inr ?rows"
    by (rule iffD1 [OF add_rows_Inr_iff scenario_rows])
  have uniq: "\<And>rows'. map table_row [request_R2, request_R1] = map Inr rows' \<longleftrightarrow> rows' = ?rows"
    unfolding rows by (auto simp add: inj_map_eq_map)
  have mk: "\<not> list_ex (markup_rejected module_init) (item_texts (pending_table ?rows))"
    by (simp add: pending_table_def markup_rejected_def module_init_def)
  let ?r = "list_pending_requests module_init workflow_R2_R1"
  note th = list_pending_requests_insertion_order [where s = module_init and w = workflow_R2_R1,
      unfolded split_beta p]
  from rows mk
  have ex: "\<exists>rows'. map table_row [request_R2, request_R1] = map Inr rows'
                     \<and> \<not> list_ex (markup_rejected module_init)
                              (item_texts (pending_table rows'))"
    by blast
  from th ex have res: "fst ?r = Inr ()"
    by (simp del: list.map)
  from th res obtain rows' where r1: "map table_row [request_R2, request_R1] = map Inr rows'"
    and r2: "console (snd (snd ?r)) = console module_init @ [pending_table rows']"
    by (auto simp del: list.map)
  from r1 uniq have "rows' = ?rows" by blast
  with r2 have con: "console (snd (snd ?r)) = console module_init @ [pending_table ?rows]"
    by simp
  from th have frame: "fst (snd ?r) = workflow_R2_R1" "fs (snd (snd ?r)) = fs module_init"
    by blast+
  show ?thesis
    unfolding split_beta p using res frame rows con by blast
qed

end
